theory Spec2Isabelle
  imports Main
begin

section \<open>Data model\<close>

text \<open>
  The rows of the relational store, as the services and DAOs read and write them.
  Amounts and quantities are the integer minor units of the data model (TypeScript
  \<^verbatim>\<open>number\<close>); identifiers and tickers are strings.  The fields are the
  ones the services and DAOs read and write.  Sums, differences and products are those
  of the integers; the source computes them on doubles, which agree with the integers
  as long as the result has magnitude at most \<open>2 ^ 53\<close>.
\<close>

record User =
  uid :: string
  balance :: int
  credit_limit :: int
  loan_balance :: int

record Stock =
  ticker :: string
  price :: int

record UserStock =
  uid :: string
  ticker :: string
  quantity :: int
  timestamp :: int

record StockTransaction =
  type :: string
  uid :: string
  ticker :: string
  balance_change :: int
  credit_change :: int
  quantity :: int
  price :: int
  total_price :: int
  timestamp :: int

record WireTransaction =
  type :: string
  uid :: string
  balance_change :: int
  destination :: string
  is_destination_user :: bool
  timestamp :: int

datatype Transaction = Stock_record StockTransaction | Wire_record WireTransaction

text \<open>\<^verbatim>\<open>Partial<User>\<close> and \<^verbatim>\<open>Partial<Stock>\<close>: every field may be absent.\<close>

record Partial_User =
  uid :: "string option"
  balance :: "int option"
  credit_limit :: "int option"
  loan_balance :: "int option"

record Partial_Stock =
  ticker :: "string option"
  price :: "int option"

text \<open>
  The errors thrown by the services and DAOs.  \<open>Error\<close> is the plain JavaScript
  \<^verbatim>\<open>Error(message)\<close>; \<open>DatabaseError\<close> is a statement rejected by the store.
\<close>

datatype error =
    UserNotFoundError string
  | StockNotFoundError string
  | InsufficientBalanceError string int int
  | InsufficientStockQuantityError string int int
  | Error string
  | DatabaseError string

text \<open>The four tables, each in row order.\<close>

record database =
  users :: "User list"
  stocks :: "Stock list"
  users_stocks :: "UserStock list"
  transactions :: "Transaction list"

section \<open>The store's execution of the DAO statements\<close>

text \<open>\<^verbatim>\<open>Object.keys\<close> of a partial object: the names of the fields that are present.\<close>

definition key_of :: "string \<Rightarrow> 'a option \<Rightarrow> string list" where
  "key_of k v = (case v of None \<Rightarrow> [] | Some _ \<Rightarrow> [k])"

definition Object_keys_User :: "Partial_User \<Rightarrow> string list" where
  "Object_keys_User user =
     key_of ''uid'' (Partial_User.uid user) @ key_of ''balance'' (Partial_User.balance user) @
     key_of ''credit_limit'' (Partial_User.credit_limit user) @
     key_of ''loan_balance'' (Partial_User.loan_balance user)"

definition Object_keys_Stock :: "Partial_Stock \<Rightarrow> string list" where
  "Object_keys_Stock stock =
     key_of ''ticker'' (Partial_Stock.ticker stock) @ key_of ''price'' (Partial_Stock.price stock)"

text \<open>\<^verbatim>\<open>SET k1 = $1, ...\<close> on one row: the supplied fields replace the row's.\<close>

definition set_User :: "Partial_User \<Rightarrow> User \<Rightarrow> User" where
  "set_User p u =
     \<lparr> User.uid = (case Partial_User.uid p of None \<Rightarrow> User.uid u | Some v \<Rightarrow> v),
       User.balance = (case Partial_User.balance p of None \<Rightarrow> User.balance u | Some v \<Rightarrow> v),
       User.credit_limit =
         (case Partial_User.credit_limit p of None \<Rightarrow> User.credit_limit u | Some v \<Rightarrow> v),
       User.loan_balance =
         (case Partial_User.loan_balance p of None \<Rightarrow> User.loan_balance u | Some v \<Rightarrow> v) \<rparr>"

definition set_Stock :: "Partial_Stock \<Rightarrow> Stock \<Rightarrow> Stock" where
  "set_Stock p s =
     \<lparr> Stock.ticker = (case Partial_Stock.ticker p of None \<Rightarrow> Stock.ticker s | Some v \<Rightarrow> v),
       Stock.price = (case Partial_Stock.price p of None \<Rightarrow> Stock.price s | Some v \<Rightarrow> v) \<rparr>"

text \<open>
  \<^verbatim>\<open>UPDATE users SET <fields> WHERE uid = $n\<close>.  With no field the statement text
  is \<^verbatim>\<open>UPDATE users SET  WHERE uid = $1\<close>, which is not a statement of SQL: the
  store rejects it and writes nothing.  Otherwise every row with that uid is rewritten;
  no row with that uid is a success that changes nothing.
\<close>

definition query_update_users :: "database \<Rightarrow> string list \<Rightarrow> Partial_User \<Rightarrow> string \<Rightarrow> error + database" where
  "query_update_users d ks p uid' =
     (if ks = [] then Inl (DatabaseError ''syntax error'')
      else Inr (d\<lparr>users := map (\<lambda>u. if User.uid u = uid' then set_User p u else u) (users d)\<rparr>))"

definition query_update_stocks :: "database \<Rightarrow> string list \<Rightarrow> Partial_Stock \<Rightarrow> string \<Rightarrow> error + database" where
  "query_update_stocks d ks p ticker' =
     (if ks = [] then Inl (DatabaseError ''syntax error'')
      else Inr (d\<lparr>stocks := map (\<lambda>s. if Stock.ticker s = ticker' then set_Stock p s else s) (stocks d)\<rparr>))"

section \<open>UserDAO and StockDAO\<close>

text \<open>\<^verbatim>\<open>SELECT * FROM users WHERE uid = $1\<close>, then \<^verbatim>\<open>rows[0] || null\<close>.\<close>

definition getUser :: "database \<Rightarrow> string \<Rightarrow> User option" where
  "getUser d uid' = find (\<lambda>u. User.uid u = uid') (users d)"

text \<open>\<^verbatim>\<open>updateUser\<close> builds the statement from the keys and sends it; it has no check of its own.\<close>

definition updateUser :: "database \<Rightarrow> string \<Rightarrow> Partial_User \<Rightarrow> error + database" where
  "updateUser d uid' user = query_update_users d (Object_keys_User user) user uid'"

text \<open>
  \<^verbatim>\<open>getUserPortfolio\<close>: null when the join has no row, that is when no user has
  the uid; otherwise the user columns of the first row.  The list of held stocks it also
  returns is not read by the transaction service and is left out here.
\<close>

definition getUserPortfolio :: "database \<Rightarrow> string \<Rightarrow> User option" where
  "getUserPortfolio d uid' = find (\<lambda>u. User.uid u = uid') (users d)"

text \<open>\<^verbatim>\<open>INSERT INTO users_stocks\<close>: one more row; no row is ever rewritten.\<close>

definition createStockHolding :: "database \<Rightarrow> UserStock \<Rightarrow> database" where
  "createStockHolding d holding = d\<lparr>users_stocks := users_stocks d @ [holding]\<rparr>"

text \<open>
  \<^verbatim>\<open>ORDER BY timestamp DESC LIMIT 1\<close>: a row of greatest timestamp.  Among rows
  of equal timestamp SQL leaves the choice open; the model takes the first in row order.
\<close>

fun most_recent :: "UserStock list \<Rightarrow> UserStock option" where
  "most_recent [] = None"
| "most_recent (h # hs) =
     (case most_recent hs of
        None \<Rightarrow> Some h
      | Some m \<Rightarrow> if UserStock.timestamp h < UserStock.timestamp m then Some m else Some h)"

definition getMostRecentStockHolding :: "database \<Rightarrow> string \<Rightarrow> string \<Rightarrow> UserStock option" where
  "getMostRecentStockHolding d uid' ticker' =
     most_recent (filter (\<lambda>h. UserStock.uid h = uid' \<and> UserStock.ticker h = ticker') (users_stocks d))"

text \<open>\<^verbatim>\<open>SELECT * FROM stocks WHERE ticker = $1\<close>, then \<^verbatim>\<open>rows[0] || null\<close>.\<close>

definition getStock :: "database \<Rightarrow> string \<Rightarrow> Stock option" where
  "getStock d ticker' = find (\<lambda>s. Stock.ticker s = ticker') (stocks d)"

text \<open>\<^verbatim>\<open>updateStock\<close> throws before building the statement when no field is given.\<close>

definition updateStock :: "database \<Rightarrow> string \<Rightarrow> Partial_Stock \<Rightarrow> error + database" where
  "updateStock d ticker' stock =
     (if length (Object_keys_Stock stock) = 0 then Inl (Error ''No fields to update'')
      else query_update_stocks d (Object_keys_Stock stock) stock ticker')"

text \<open>
  Modelled from the spec: \<^verbatim>\<open>TransactionDAO.createTransaction\<close> is not among the
  sources; the transaction log repository's append inserts one immutable record and
  nothing else.
\<close>

definition createTransaction :: "database \<Rightarrow> Transaction \<Rightarrow> database" where
  "createTransaction d r = d\<lparr>transactions := transactions d @ [r]\<rparr>"

section \<open>TransactionService\<close>

text \<open>
  Each operation takes the store and returns the store it leaves behind together with
  the record it returns or the error it throws.  The two readings of
  \<^verbatim>\<open>Date.now()\<close> are the parameters \<open>now1\<close> and \<open>now2\<close>.  An error inside
  the \<^verbatim>\<open>try\<close> block is followed by \<^verbatim>\<open>ROLLBACK\<close>: the store is the one
  before \<^verbatim>\<open>BEGIN\<close>.
\<close>

text \<open>
  Lines 55 to 93 of \<^verbatim>\<open>buyStock\<close>, reached with the credit amount decided: read the
  latest holding, then append the new snapshot, update the user and append the record.
\<close>

definition buyStock_persist ::
  "database \<Rightarrow> int \<Rightarrow> int \<Rightarrow> string \<Rightarrow> string \<Rightarrow> int \<Rightarrow> User \<Rightarrow> Stock \<Rightarrow> int \<Rightarrow> int \<Rightarrow>
     database \<times> (error + StockTransaction)" where
  "buyStock_persist d now1 now2 uid' ticker' add user stock cost useCreditAmount =
     (let holding = getMostRecentStockHolding d uid' ticker';
          newQuantity = (case holding of Some h \<Rightarrow> UserStock.quantity h + add | None \<Rightarrow> add);
          newBalance = User.balance user + useCreditAmount - cost;
          newDebt = User.loan_balance user + useCreditAmount;
          newHolding = \<lparr> UserStock.uid = uid', UserStock.ticker = ticker',
                         UserStock.quantity = newQuantity, UserStock.timestamp = now1 \<rparr>;
          transactionRecord =
            \<lparr> StockTransaction.type = ''buy'', StockTransaction.uid = uid',
              StockTransaction.ticker = ticker',
              StockTransaction.balance_change = - (cost - useCreditAmount),
              StockTransaction.credit_change = useCreditAmount,
              StockTransaction.quantity = add, StockTransaction.price = Stock.price stock,
              StockTransaction.total_price = cost, StockTransaction.timestamp = now2 \<rparr>
      in
      (case updateUser (createStockHolding d newHolding) uid'
              \<lparr> Partial_User.uid = None, Partial_User.balance = Some newBalance,
                Partial_User.credit_limit = None, Partial_User.loan_balance = Some newDebt \<rparr> of
         Inl err \<Rightarrow> (d, Inl err)
       | Inr d' \<Rightarrow> (createTransaction d' (Stock_record transactionRecord), Inr transactionRecord)))"

definition buyStock ::
  "database \<Rightarrow> int \<Rightarrow> int \<Rightarrow> string \<Rightarrow> string \<Rightarrow> int \<Rightarrow> bool \<Rightarrow> database \<times> (error + StockTransaction)" where
  "buyStock d now1 now2 uid' ticker' add useCredit =
     (case getUserPortfolio d uid' of
        None \<Rightarrow> (d, Inl (UserNotFoundError uid'))
      | Some user \<Rightarrow>
     (case getStock d ticker' of
        None \<Rightarrow> (d, Inl (StockNotFoundError ticker'))
      | Some stock \<Rightarrow>
        let cost = Stock.price stock * add;
            userAvailableCredit = max (User.credit_limit user - User.loan_balance user) 0
        in
        if User.balance user < cost then
          (if useCredit \<and> User.balance user + userAvailableCredit > Stock.price stock * add
           then buyStock_persist d now1 now2 uid' ticker' add user stock cost
                  (Stock.price stock * add - User.balance user)
           else (d, Inl (InsufficientBalanceError uid' (User.balance user) cost)))
        else buyStock_persist d now1 now2 uid' ticker' add user stock cost 0))"

definition sellStock ::
  "database \<Rightarrow> int \<Rightarrow> int \<Rightarrow> string \<Rightarrow> string \<Rightarrow> int \<Rightarrow> database \<times> (error + StockTransaction)" where
  "sellStock d now1 now2 uid' ticker' remove =
     (case getUserPortfolio d uid' of
        None \<Rightarrow> (d, Inl (UserNotFoundError uid'))
      | Some user \<Rightarrow>
     (case getStock d ticker' of
        None \<Rightarrow> (d, Inl (StockNotFoundError ticker'))
      | Some stock \<Rightarrow>
     (case getMostRecentStockHolding d uid' ticker' of
        None \<Rightarrow> (d, Inl (InsufficientStockQuantityError uid' 0 remove))
      | Some holding \<Rightarrow>
        if remove > UserStock.quantity holding
        then (d, Inl (InsufficientStockQuantityError uid'
                        (if UserStock.quantity holding \<noteq> 0 then UserStock.quantity holding else 0) remove))
        else
          let newQuantity = UserStock.quantity holding - remove;
              newBalance = User.balance user + Stock.price stock * remove;
              newHolding = \<lparr> UserStock.uid = uid', UserStock.ticker = ticker',
                             UserStock.quantity = newQuantity, UserStock.timestamp = now1 \<rparr>;
              transactionRecord =
                \<lparr> StockTransaction.type = ''sell'', StockTransaction.uid = uid',
                  StockTransaction.ticker = ticker',
                  StockTransaction.balance_change = Stock.price stock * remove,
                  StockTransaction.credit_change = 0,
                  StockTransaction.quantity = remove, StockTransaction.price = Stock.price stock,
                  StockTransaction.total_price = Stock.price stock * remove,
                  StockTransaction.timestamp = now2 \<rparr>
          in
          (case updateUser (createStockHolding d newHolding) uid'
                  \<lparr> Partial_User.uid = None, Partial_User.balance = Some newBalance,
                    Partial_User.credit_limit = None, Partial_User.loan_balance = None \<rparr> of
             Inl err \<Rightarrow> (d, Inl err)
           | Inr d' \<Rightarrow> (createTransaction d' (Stock_record transactionRecord), Inr transactionRecord)))))"

definition wireToUser ::
  "database \<Rightarrow> int \<Rightarrow> string \<Rightarrow> string \<Rightarrow> int \<Rightarrow> database \<times> (error + WireTransaction)" where
  "wireToUser d now fromUid destUid amount =
     (case getUser d fromUid of
        None \<Rightarrow> (d, Inl (UserNotFoundError fromUid))
      | Some fromUser \<Rightarrow>
     (case getUser d destUid of
        None \<Rightarrow> (d, Inl (UserNotFoundError destUid))
      | Some destUser \<Rightarrow>
        if User.balance fromUser < amount
        then (d, Inl (InsufficientBalanceError fromUid (User.balance fromUser) amount))
        else
          let transactionRecord =
                \<lparr> WireTransaction.type = ''wire'', WireTransaction.uid = fromUid,
                  WireTransaction.balance_change = - amount,
                  WireTransaction.destination = destUid,
                  WireTransaction.is_destination_user = True,
                  WireTransaction.timestamp = now \<rparr>
          in
          (case updateUser d fromUid
                  \<lparr> Partial_User.uid = None, Partial_User.balance = Some (User.balance fromUser - amount),
                    Partial_User.credit_limit = None, Partial_User.loan_balance = None \<rparr> of
             Inl err \<Rightarrow> (d, Inl err)
           | Inr d1 \<Rightarrow>
          (case updateUser d1 destUid
                  \<lparr> Partial_User.uid = None, Partial_User.balance = Some (User.balance destUser + amount),
                    Partial_User.credit_limit = None, Partial_User.loan_balance = None \<rparr> of
             Inl err \<Rightarrow> (d, Inl err)
           | Inr d2 \<Rightarrow> (createTransaction d2 (Wire_record transactionRecord), Inr transactionRecord)))))"

definition wireToEntity ::
  "database \<Rightarrow> int \<Rightarrow> string \<Rightarrow> string \<Rightarrow> int \<Rightarrow> database \<times> (error + WireTransaction)" where
  "wireToEntity d now fromUid destIdentifier amount =
     (case getUser d fromUid of
        None \<Rightarrow> (d, Inl (UserNotFoundError fromUid))
      | Some fromUser \<Rightarrow>
        if User.balance fromUser < amount
        then (d, Inl (InsufficientBalanceError fromUid (User.balance fromUser) amount))
        else
          let transactionRecord =
                \<lparr> WireTransaction.type = ''wire'', WireTransaction.uid = fromUid,
                  WireTransaction.balance_change = - amount,
                  WireTransaction.destination = destIdentifier,
                  WireTransaction.is_destination_user = False,
                  WireTransaction.timestamp = now \<rparr>
          in
          (case updateUser d fromUid
                  \<lparr> Partial_User.uid = None, Partial_User.balance = Some (User.balance fromUser - amount),
                    Partial_User.credit_limit = None, Partial_User.loan_balance = None \<rparr> of
             Inl err \<Rightarrow> (d, Inl err)
           | Inr d' \<Rightarrow> (createTransaction d' (Wire_record transactionRecord), Inr transactionRecord)))"

section \<open>An example store\<close>

text \<open>
  User A has balance 100 and a credit limit of 500, user B has balance 1000, no credit and
  five shares of XYZ; XYZ trades at 100.
\<close>

definition example_store :: database where
  "example_store =
     \<lparr> users = [\<lparr>User.uid = ''A'', User.balance = 100, User.credit_limit = 500, User.loan_balance = 0\<rparr>,
                 \<lparr>User.uid = ''B'', User.balance = 1000, User.credit_limit = 0, User.loan_balance = 0\<rparr>],
       stocks = [\<lparr>Stock.ticker = ''XYZ'', Stock.price = 100\<rparr>],
       users_stocks = [\<lparr>UserStock.uid = ''B'', UserStock.ticker = ''XYZ'', UserStock.quantity = 5,
                        UserStock.timestamp = 0\<rparr>],
       transactions = [] \<rparr>"

section \<open>Auxiliary facts\<close>

lemma find_users_update:
  "Partial_User.uid p = None \<Longrightarrow>
   find (\<lambda>u. User.uid u = k) (map (\<lambda>u. if User.uid u = uid' then set_User p u else u) us) =
     (if k = uid' then map_option (set_User p) (find (\<lambda>u. User.uid u = uid') us)
      else find (\<lambda>u. User.uid u = k) us)"
  by (induction us) (auto simp: set_User_def)

lemma updateUser_balance:
  "updateUser d uid' \<lparr> Partial_User.uid = None, Partial_User.balance = Some b,
                       Partial_User.credit_limit = None, Partial_User.loan_balance = l \<rparr> =
   Inr (d\<lparr>users := map (\<lambda>u. if User.uid u = uid' then
        set_User \<lparr> Partial_User.uid = None, Partial_User.balance = Some b,
                       Partial_User.credit_limit = None, Partial_User.loan_balance = l \<rparr> u else u) (users d)\<rparr>)"
  by (simp add: updateUser_def query_update_users_def Object_keys_User_def key_of_def)

text \<open>The definitions unfolded to run an operation on a concrete store.\<close>

lemmas run_defs =
  buyStock_def buyStock_persist_def sellStock_def wireToUser_def wireToEntity_def Let_def
  getUser_def getUserPortfolio_def getStock_def getMostRecentStockHolding_def
  updateUser_def query_update_users_def Object_keys_User_def key_of_def set_User_def
  createStockHolding_def createTransaction_def example_store_def

lemma buyStock_persist_success:
  "buyStock_persist d now1 now2 uid' ticker' add user stock cost c = (d', res) \<Longrightarrow>
   res = Inr \<lparr> StockTransaction.type = ''buy'', StockTransaction.uid = uid',
              StockTransaction.ticker = ticker',
              StockTransaction.balance_change = - (cost - c),
              StockTransaction.credit_change = c,
              StockTransaction.quantity = add, StockTransaction.price = Stock.price stock,
              StockTransaction.total_price = cost, StockTransaction.timestamp = now2 \<rparr> \<and>
   users d' = map (\<lambda>u. if User.uid u = uid' then
        set_User \<lparr> Partial_User.uid = None, Partial_User.balance = Some (User.balance user + c - cost),
                       Partial_User.credit_limit = None, Partial_User.loan_balance = Some (User.loan_balance user + c) \<rparr> u else u) (users d) \<and>
   stocks d' = stocks d \<and>
   users_stocks d' = users_stocks d @
      [\<lparr> UserStock.uid = uid', UserStock.ticker = ticker',
         UserStock.quantity = (case getMostRecentStockHolding d uid' ticker' of Some h \<Rightarrow> UserStock.quantity h + add | None \<Rightarrow> add),
         UserStock.timestamp = now1 \<rparr>] \<and>
   transactions d' = transactions d @ [Stock_record \<lparr> StockTransaction.type = ''buy'', StockTransaction.uid = uid',
              StockTransaction.ticker = ticker',
              StockTransaction.balance_change = - (cost - c),
              StockTransaction.credit_change = c,
              StockTransaction.quantity = add, StockTransaction.price = Stock.price stock,
              StockTransaction.total_price = cost, StockTransaction.timestamp = now2 \<rparr>]"
  by (auto simp: buyStock_persist_def Let_def updateUser_balance createTransaction_def createStockHolding_def)

lemma buyStock_cases:
  assumes "buyStock d now1 now2 uid' ticker' add useCredit = (d', Inr r)"
  obtains user stock c where
    "getUserPortfolio d uid' = Some user" "getStock d ticker' = Some stock"
    "buyStock_persist d now1 now2 uid' ticker' add user stock (Stock.price stock * add) c = (d', Inr r)"
    "c = (if User.balance user < Stock.price stock * add then Stock.price stock * add - User.balance user else 0)"
    "User.balance user < Stock.price stock * add \<Longrightarrow>
       useCredit \<and> User.balance user + max (User.credit_limit user - User.loan_balance user) 0 > Stock.price stock * add"
  using assms
  by (auto simp: buyStock_def Let_def split: option.splits if_splits)

lemma sellStock_cases:
  assumes "sellStock d now1 now2 uid' ticker' remove = (d', Inr r)"
  obtains user stock holding where
    "getUserPortfolio d uid' = Some user" "getStock d ticker' = Some stock"
    "getMostRecentStockHolding d uid' ticker' = Some holding"
    "remove \<le> UserStock.quantity holding"
    "r = \<lparr> StockTransaction.type = ''sell'', StockTransaction.uid = uid',
           StockTransaction.ticker = ticker',
           StockTransaction.balance_change = Stock.price stock * remove,
           StockTransaction.credit_change = 0,
           StockTransaction.quantity = remove, StockTransaction.price = Stock.price stock,
           StockTransaction.total_price = Stock.price stock * remove,
           StockTransaction.timestamp = now2 \<rparr>"
    "users d' = map (\<lambda>u. if User.uid u = uid' then
        set_User \<lparr> Partial_User.uid = None,
                   Partial_User.balance = Some (User.balance user + Stock.price stock * remove),
                   Partial_User.credit_limit = None, Partial_User.loan_balance = None \<rparr> u else u) (users d)"
    "stocks d' = stocks d"
    "users_stocks d' = users_stocks d @
      [\<lparr> UserStock.uid = uid', UserStock.ticker = ticker',
         UserStock.quantity = UserStock.quantity holding - remove, UserStock.timestamp = now1 \<rparr>]"
    "transactions d' = transactions d @ [Stock_record r]"
  using assms
  by (auto simp: sellStock_def Let_def updateUser_balance createTransaction_def createStockHolding_def
           split: option.splits if_splits)

lemma wireToUser_cases:
  assumes "wireToUser d now fromUid destUid amount = (d', Inr r)"
  obtains fromUser destUser where
    "getUser d fromUid = Some fromUser" "getUser d destUid = Some destUser"
    "amount \<le> User.balance fromUser"
    "r = \<lparr> WireTransaction.type = ''wire'', WireTransaction.uid = fromUid,
           WireTransaction.balance_change = - amount, WireTransaction.destination = destUid,
           WireTransaction.is_destination_user = True, WireTransaction.timestamp = now \<rparr>"
    "users d' =
       map (\<lambda>u. if User.uid u = destUid then
               set_User \<lparr> Partial_User.uid = None,
                          Partial_User.balance = Some (User.balance destUser + amount),
                          Partial_User.credit_limit = None, Partial_User.loan_balance = None \<rparr> u else u)
        (map (\<lambda>u. if User.uid u = fromUid then
               set_User \<lparr> Partial_User.uid = None,
                          Partial_User.balance = Some (User.balance fromUser - amount),
                          Partial_User.credit_limit = None, Partial_User.loan_balance = None \<rparr> u else u)
           (users d))"
    "stocks d' = stocks d" "users_stocks d' = users_stocks d"
    "transactions d' = transactions d @ [Wire_record r]"
  using assms
  by (auto simp: wireToUser_def Let_def updateUser_balance createTransaction_def
           split: option.splits if_splits)

lemma wireToEntity_cases:
  assumes "wireToEntity d now fromUid destIdentifier amount = (d', Inr r)"
  obtains fromUser where
    "getUser d fromUid = Some fromUser"
    "amount \<le> User.balance fromUser"
    "r = \<lparr> WireTransaction.type = ''wire'', WireTransaction.uid = fromUid,
           WireTransaction.balance_change = - amount, WireTransaction.destination = destIdentifier,
           WireTransaction.is_destination_user = False, WireTransaction.timestamp = now \<rparr>"
    "users d' =
       map (\<lambda>u. if User.uid u = fromUid then
               set_User \<lparr> Partial_User.uid = None,
                          Partial_User.balance = Some (User.balance fromUser - amount),
                          Partial_User.credit_limit = None, Partial_User.loan_balance = None \<rparr> u else u)
           (users d)"
    "stocks d' = stocks d" "users_stocks d' = users_stocks d"
    "transactions d' = transactions d @ [Wire_record r]"
  using assms
  by (auto simp: wireToEntity_def Let_def updateUser_balance createTransaction_def
           split: option.splits if_splits)

section \<open>Buying on credit\<close>

text \<open>
  Claim C1.  When the user's balance is below the cost \<open>price * add\<close>, credit is
  asked for and balance plus available credit, \<open>max (credit_limit - loan_balance) 0\<close>,
  exceeds the cost, \<open>buyStock\<close> succeeds and draws exactly the shortfall
  \<open>cost - balance\<close>: the user's new balance is \<open>balance + creditAmount - cost\<close>,
  which is 0, the new loan balance is the old one plus the credit amount, and the
  returned record has \<open>balance_change = - (cost - creditAmount)\<close>,
  \<open>credit_change = creditAmount\<close> and \<open>total_price = cost\<close>.
\<close>

theorem buyStock_draws_shortfall:
  assumes "getUserPortfolio d uid' = Some user" and "getStock d ticker' = Some stock"
    and "User.balance user < Stock.price stock * add"
    and "User.balance user + max (User.credit_limit user - User.loan_balance user) 0 > Stock.price stock * add"
  shows "\<exists>d' r u'. buyStock d now1 now2 uid' ticker' add True = (d', Inr r) \<and>
           getUser d' uid' = Some u' \<and>
           User.balance u' = User.balance user + (Stock.price stock * add - User.balance user) - Stock.price stock * add \<and>
           User.balance u' = 0 \<and>
           User.loan_balance u' = User.loan_balance user + (Stock.price stock * add - User.balance user) \<and>
           StockTransaction.balance_change r =
             - (Stock.price stock * add - (Stock.price stock * add - User.balance user)) \<and>
           StockTransaction.credit_change r = Stock.price stock * add - User.balance user \<and>
           StockTransaction.total_price r = Stock.price stock * add"
proof -
  obtain d' res where run: "buyStock_persist d now1 now2 uid' ticker' add user stock (Stock.price stock * add)
      (Stock.price stock * add - User.balance user) = (d', res)"
    by (cases "buyStock_persist d now1 now2 uid' ticker' add user stock (Stock.price stock * add)
      (Stock.price stock * add - User.balance user)") 
  note p = buyStock_persist_success [OF run]
  from assms run have "buyStock d now1 now2 uid' ticker' add True = (d', res)"
    by (auto simp: buyStock_def Let_def max_def split: if_splits)
  moreover from assms(1) p have "\<exists>u'. getUser d' uid' = Some u' \<and> User.balance u' = 0 \<and>
      User.loan_balance u' = User.loan_balance user + (Stock.price stock * add - User.balance user)"
    by (simp add: getUser_def getUserPortfolio_def find_users_update set_User_def)
  ultimately show ?thesis using p by auto
qed

theorem buyStock_draws_shortfall_witness:
  "getUserPortfolio example_store ''A'' =
     Some \<lparr>User.uid = ''A'', User.balance = 100, User.credit_limit = 500, User.loan_balance = 0\<rparr> \<and>
   getStock example_store ''XYZ'' = Some \<lparr>Stock.ticker = ''XYZ'', Stock.price = 100\<rparr> \<and>
   (100::int) < 100 * 2 \<and> (100::int) * 2 < 100 + max (500 - 0) 0 \<and>
   (\<exists>d' r u'. buyStock example_store 1 2 ''A'' ''XYZ'' 2 True = (d', Inr r) \<and>
      getUser d' ''A'' = Some u' \<and> User.balance u' = 0 \<and> User.loan_balance u' = 100 \<and>
      StockTransaction.balance_change r = - 100 \<and> StockTransaction.credit_change r = 100 \<and>
      StockTransaction.total_price r = 200)"
proof -
  have u: "getUserPortfolio example_store ''A'' =
     Some \<lparr>User.uid = ''A'', User.balance = 100, User.credit_limit = 500, User.loan_balance = 0\<rparr>"
    by (simp add: getUserPortfolio_def example_store_def)
  have s: "getStock example_store ''XYZ'' = Some \<lparr>Stock.ticker = ''XYZ'', Stock.price = 100\<rparr>"
    by (simp add: getStock_def example_store_def)
  show ?thesis
    using u s buyStock_draws_shortfall [OF u s, of 2 1 2] by simp
qed

section \<open>Balances follow the returned record\<close>

lemma buyStock_balance_change:
  assumes "buyStock d now1 now2 uid' ticker' add useCredit = (d', Inr r)"
  shows "\<exists>u u'. getUser d uid' = Some u \<and> getUser d' uid' = Some u' \<and>
           User.balance u' = User.balance u + StockTransaction.balance_change r \<and>
           User.loan_balance u' = User.loan_balance u + StockTransaction.credit_change r"
proof -
  from assms obtain user stock c where
    u: "getUserPortfolio d uid' = Some user" and
    run: "buyStock_persist d now1 now2 uid' ticker' add user stock (Stock.price stock * add) c = (d', Inr r)"
    by (rule buyStock_cases)
  from u buyStock_persist_success [OF run] show ?thesis
    by (auto simp: getUser_def getUserPortfolio_def find_users_update set_User_def)
qed

lemma sellStock_balance_change:
  assumes "sellStock d now1 now2 uid' ticker' remove = (d', Inr r)"
  shows "\<exists>u u'. getUser d uid' = Some u \<and> getUser d' uid' = Some u' \<and>
           User.balance u' = User.balance u + StockTransaction.balance_change r \<and>
           StockTransaction.credit_change r = 0 \<and>
           User.loan_balance u' = User.loan_balance u"
  using assms
  by (rule sellStock_cases)
     (auto simp: getUser_def getUserPortfolio_def find_users_update set_User_def)

text \<open>
  Claim C2.  After a successful \<open>buyStock\<close> the user's balance is the old balance plus
  the record's \<open>balance_change\<close> and the loan balance is the old one plus the record's
  \<open>credit_change\<close>; after a successful \<open>sellStock\<close> the balance is the old balance
  plus the record's \<open>balance_change\<close>, the record's \<open>credit_change\<close> is 0 and the
  loan balance is unchanged.
\<close>

theorem trade_balance_follows_record:
  "(buyStock d now1 now2 uid' ticker' add useCredit = (d', Inr r) \<longrightarrow>
      (\<exists>u u'. getUser d uid' = Some u \<and> getUser d' uid' = Some u' \<and>
           User.balance u' = User.balance u + StockTransaction.balance_change r \<and>
           User.loan_balance u' = User.loan_balance u + StockTransaction.credit_change r)) \<and>
   (sellStock d now1 now2 uid' ticker' remove = (d'', Inr r') \<longrightarrow>
      (\<exists>u u'. getUser d uid' = Some u \<and> getUser d'' uid' = Some u' \<and>
           User.balance u' = User.balance u + StockTransaction.balance_change r' \<and>
           StockTransaction.credit_change r' = 0 \<and>
           User.loan_balance u' = User.loan_balance u))"
  using buyStock_balance_change sellStock_balance_change by blast

theorem trade_balance_follows_record_witness:
  "(\<exists>d' r. buyStock example_store 1 2 ''B'' ''XYZ'' 5 False = (d', Inr r) \<and>
      (\<exists>u u'. getUser example_store ''B'' = Some u \<and> getUser d' ''B'' = Some u' \<and>
           User.balance u' = User.balance u + StockTransaction.balance_change r \<and>
           User.loan_balance u' = User.loan_balance u + StockTransaction.credit_change r)) \<and>
   (\<exists>d'' r'. sellStock example_store 1 2 ''B'' ''XYZ'' 3 = (d'', Inr r') \<and>
      (\<exists>u u'. getUser example_store ''B'' = Some u \<and> getUser d'' ''B'' = Some u' \<and>
           User.balance u' = User.balance u + StockTransaction.balance_change r' \<and>
           StockTransaction.credit_change r' = 0 \<and>
           User.loan_balance u' = User.loan_balance u))"
proof -
  have "\<exists>d' r. buyStock example_store 1 2 ''B'' ''XYZ'' 5 False = (d', Inr r)"
    by (simp add: run_defs)
  then obtain d' r where b: "buyStock example_store 1 2 ''B'' ''XYZ'' 5 False = (d', Inr r)"
    by blast
  have "\<exists>d'' r'. sellStock example_store 1 2 ''B'' ''XYZ'' 3 = (d'', Inr r')"
    by (simp add: run_defs)
  then obtain d'' r' where s: "sellStock example_store 1 2 ''B'' ''XYZ'' 3 = (d'', Inr r')"
    by blast
  from b s trade_balance_follows_record [of example_store 1 2 "''B''" "''XYZ''" 5 False d' r 3 d'' r']
  show ?thesis by blast
qed

section \<open>The loan balance stays within the credit limit\<close>

text \<open>An update of the balance alone keeps every user's credit limit and loan balance.\<close>

lemma find_balance_update_credit:
  assumes "find (\<lambda>u. User.uid u = k) us = Some u"
  shows "\<exists>u'. find (\<lambda>u. User.uid u = k)
            (map (\<lambda>u. if User.uid u = uid' then
               set_User \<lparr> Partial_User.uid = None, Partial_User.balance = b,
                          Partial_User.credit_limit = None, Partial_User.loan_balance = None \<rparr> u else u) us) = Some u' \<and>
          User.loan_balance u' = User.loan_balance u \<and> User.credit_limit u' = User.credit_limit u"
  using assms by (auto simp: find_users_update set_User_def)

lemma buyStock_credit_bound:
  assumes "buyStock d now1 now2 uid' ticker' add useCredit = (d', Inr r)"
    and "getUser d k = Some u" and "User.loan_balance u \<le> User.credit_limit u"
  shows "(\<exists>u'. getUser d' k = Some u' \<and> User.loan_balance u' \<le> User.credit_limit u') \<and>
         (k = uid' \<and> StockTransaction.credit_change r \<noteq> 0 \<longrightarrow>
            StockTransaction.credit_change r < max (User.credit_limit u - User.loan_balance u) 0)"
proof -
  from assms(1) obtain user stock c where
    u: "getUserPortfolio d uid' = Some user" and
    run: "buyStock_persist d now1 now2 uid' ticker' add user stock (Stock.price stock * add) c = (d', Inr r)" and
    c: "c = (if User.balance user < Stock.price stock * add then Stock.price stock * add - User.balance user else 0)" and
    ok: "User.balance user < Stock.price stock * add \<Longrightarrow>
       useCredit \<and> User.balance user + max (User.credit_limit user - User.loan_balance user) 0 > Stock.price stock * add"
    by (rule buyStock_cases) blast
  note p = buyStock_persist_success [OF run]
  have bound: "k = uid' \<Longrightarrow> c \<noteq> 0 \<Longrightarrow> c < max (User.credit_limit u - User.loan_balance u) 0"
    using u assms(2) c ok by (auto simp: getUser_def getUserPortfolio_def split: if_splits)
  have "\<exists>u'. getUser d' k = Some u' \<and> User.loan_balance u' \<le> User.credit_limit u'"
  proof (cases "k = uid'")
    case True
    with u assms(2) have [simp]: "user = u" by (simp add: getUser_def getUserPortfolio_def)
    from True bound assms(3) have "User.loan_balance u + c \<le> User.credit_limit u"
      by (cases "c = 0") auto
    with True p assms(2) show ?thesis
      by (auto simp: getUser_def find_users_update set_User_def)
  next
    case False
    with p assms(2,3) show ?thesis
      by (auto simp: getUser_def find_users_update)
  qed
  moreover from p have "StockTransaction.credit_change r = c" by auto
  ultimately show ?thesis using bound by simp
qed

lemma sellStock_credit_bound:
  assumes "sellStock d now1 now2 uid' ticker' remove = (d', Inr r)"
    and "getUser d k = Some u" and "User.loan_balance u \<le> User.credit_limit u"
  shows "\<exists>u'. getUser d' k = Some u' \<and> User.loan_balance u' \<le> User.credit_limit u'"
proof -
  from assms(1) obtain b where
    "users d' = map (\<lambda>u. if User.uid u = uid' then
        set_User \<lparr> Partial_User.uid = None, Partial_User.balance = b,
                   Partial_User.credit_limit = None, Partial_User.loan_balance = None \<rparr> u else u) (users d)"
    by (rule sellStock_cases) blast
  with find_balance_update_credit [of k "users d" u uid' b] assms(2,3) show ?thesis
    by (auto simp: getUser_def)
qed

lemma wireToEntity_credit_bound:
  assumes "wireToEntity d now fromUid destIdentifier amount = (d', Inr r)"
    and "getUser d k = Some u" and "User.loan_balance u \<le> User.credit_limit u"
  shows "\<exists>u'. getUser d' k = Some u' \<and> User.loan_balance u' \<le> User.credit_limit u'"
proof -
  from assms(1) obtain b where
    "users d' = map (\<lambda>u. if User.uid u = fromUid then
        set_User \<lparr> Partial_User.uid = None, Partial_User.balance = b,
                   Partial_User.credit_limit = None, Partial_User.loan_balance = None \<rparr> u else u) (users d)"
    by (rule wireToEntity_cases) blast
  with find_balance_update_credit [of k "users d" u fromUid b] assms(2,3) show ?thesis
    by (auto simp: getUser_def)
qed

lemma wireToUser_credit_bound:
  assumes "wireToUser d now fromUid destUid amount = (d', Inr r)"
    and "getUser d k = Some u" and "User.loan_balance u \<le> User.credit_limit u"
  shows "\<exists>u'. getUser d' k = Some u' \<and> User.loan_balance u' \<le> User.credit_limit u'"
proof -
  from assms(1) obtain b1 b2 where
    us: "users d' =
       map (\<lambda>u. if User.uid u = destUid then
               set_User \<lparr> Partial_User.uid = None, Partial_User.balance = b2,
                          Partial_User.credit_limit = None, Partial_User.loan_balance = None \<rparr> u else u)
        (map (\<lambda>u. if User.uid u = fromUid then
               set_User \<lparr> Partial_User.uid = None, Partial_User.balance = b1,
                          Partial_User.credit_limit = None, Partial_User.loan_balance = None \<rparr> u else u)
           (users d))"
    by (rule wireToUser_cases) blast
  from assms(2) have "find (\<lambda>u. User.uid u = k) (users d) = Some u" by (simp add: getUser_def)
  from find_balance_update_credit [OF this, of fromUid b1] obtain u1 where
    u1: "find (\<lambda>u. User.uid u = k) (map (\<lambda>u. if User.uid u = fromUid then
               set_User \<lparr> Partial_User.uid = None, Partial_User.balance = b1,
                          Partial_User.credit_limit = None, Partial_User.loan_balance = None \<rparr> u else u)
           (users d)) = Some u1"
      "User.loan_balance u1 = User.loan_balance u" "User.credit_limit u1 = User.credit_limit u"
    by blast
  from find_balance_update_credit [OF u1(1), of destUid b2] us u1(2,3) assms(3) show ?thesis
    by (auto simp: getUser_def)
qed

text \<open>
  Claim C3.  A user whose loan balance is at most the credit limit still has a loan
  balance at most the credit limit after any one of \<open>buyStock\<close>, \<open>sellStock\<close>,
  \<open>wireToUser\<close> and \<open>wireToEntity\<close> has succeeded; and a buy that draws credit
  draws strictly less than the buyer's available credit
  \<open>max (credit_limit - loan_balance) 0\<close>.  The user \<open>k\<close> is any user of the store, the
  one who runs the operation included.
\<close>

theorem loan_balance_within_credit_limit:
  assumes "getUser d k = Some u" and "User.loan_balance u \<le> User.credit_limit u"
  shows "(buyStock d now1 now2 uidB tickerB add useCredit = (dB, Inr rB) \<longrightarrow>
            (\<exists>u'. getUser dB k = Some u' \<and> User.loan_balance u' \<le> User.credit_limit u') \<and>
            (k = uidB \<and> StockTransaction.credit_change rB \<noteq> 0 \<longrightarrow>
               StockTransaction.credit_change rB < max (User.credit_limit u - User.loan_balance u) 0)) \<and>
         (sellStock d now1 now2 uidS tickerS remove = (dS, Inr rS) \<longrightarrow>
            (\<exists>u'. getUser dS k = Some u' \<and> User.loan_balance u' \<le> User.credit_limit u')) \<and>
         (wireToUser d now1 uidW destUid amountW = (dW, Inr rW) \<longrightarrow>
            (\<exists>u'. getUser dW k = Some u' \<and> User.loan_balance u' \<le> User.credit_limit u')) \<and>
         (wireToEntity d now1 uidE destIdentifier amountE = (dE, Inr rE) \<longrightarrow>
            (\<exists>u'. getUser dE k = Some u' \<and> User.loan_balance u' \<le> User.credit_limit u'))"
proof (intro conjI impI)
  assume run: "buyStock d now1 now2 uidB tickerB add useCredit = (dB, Inr rB)"
  from buyStock_credit_bound [OF run assms]
  show "\<exists>u'. getUser dB k = Some u' \<and> User.loan_balance u' \<le> User.credit_limit u'"
    by (rule conjunct1)
  assume "k = uidB \<and> StockTransaction.credit_change rB \<noteq> 0"
  with buyStock_credit_bound [OF run assms]
  show "StockTransaction.credit_change rB < max (User.credit_limit u - User.loan_balance u) 0"
    by blast
next
  assume "sellStock d now1 now2 uidS tickerS remove = (dS, Inr rS)"
  then show "\<exists>u'. getUser dS k = Some u' \<and> User.loan_balance u' \<le> User.credit_limit u'"
    using assms by (rule sellStock_credit_bound)
next
  assume "wireToUser d now1 uidW destUid amountW = (dW, Inr rW)"
  then show "\<exists>u'. getUser dW k = Some u' \<and> User.loan_balance u' \<le> User.credit_limit u'"
    using assms by (rule wireToUser_credit_bound)
next
  assume "wireToEntity d now1 uidE destIdentifier amountE = (dE, Inr rE)"
  then show "\<exists>u'. getUser dE k = Some u' \<and> User.loan_balance u' \<le> User.credit_limit u'"
    using assms by (rule wireToEntity_credit_bound)
qed

theorem loan_balance_within_credit_limit_witness:
  "getUser example_store ''A'' =
     Some \<lparr>User.uid = ''A'', User.balance = 100, User.credit_limit = 500, User.loan_balance = 0\<rparr> \<and>
   (0::int) \<le> 500 \<and>
   (\<exists>d1 r1. buyStock example_store 1 2 ''A'' ''XYZ'' 2 True = (d1, Inr r1) \<and>
      (\<exists>u'. getUser d1 ''A'' = Some u' \<and> User.loan_balance u' \<le> User.credit_limit u') \<and>
      StockTransaction.credit_change r1 \<noteq> 0 \<and>
      StockTransaction.credit_change r1 < max (500 - 0) 0) \<and>
   (\<exists>d2 r2. sellStock example_store 1 2 ''B'' ''XYZ'' 3 = (d2, Inr r2) \<and>
      (\<exists>u'. getUser d2 ''A'' = Some u' \<and> User.loan_balance u' \<le> User.credit_limit u')) \<and>
   (\<exists>d3 r3. wireToUser example_store 1 ''A'' ''B'' 50 = (d3, Inr r3) \<and>
      (\<exists>u'. getUser d3 ''A'' = Some u' \<and> User.loan_balance u' \<le> User.credit_limit u')) \<and>
   (\<exists>d4 r4. wireToEntity example_store 1 ''A'' ''bank'' 50 = (d4, Inr r4) \<and>
      (\<exists>u'. getUser d4 ''A'' = Some u' \<and> User.loan_balance u' \<le> User.credit_limit u'))"
proof -
  let ?u = "\<lparr>User.uid = ''A'', User.balance = 100, User.credit_limit = 500, User.loan_balance = 0\<rparr>"
  have u: "getUser example_store ''A'' = Some ?u"
    by (simp add: getUser_def example_store_def)
  have l: "User.loan_balance ?u \<le> User.credit_limit ?u" by simp
  have "\<exists>d1 r1. buyStock example_store 1 2 ''A'' ''XYZ'' 2 True = (d1, Inr r1) \<and>
          StockTransaction.credit_change r1 \<noteq> 0"
    by (simp add: run_defs)
  then obtain d1 r1 where b: "buyStock example_store 1 2 ''A'' ''XYZ'' 2 True = (d1, Inr r1)"
    and c: "StockTransaction.credit_change r1 \<noteq> 0" by blast
  have "\<exists>d2 r2. sellStock example_store 1 2 ''B'' ''XYZ'' 3 = (d2, Inr r2)"
    by (simp add: run_defs)
  then obtain d2 r2 where s: "sellStock example_store 1 2 ''B'' ''XYZ'' 3 = (d2, Inr r2)" by blast
  have "\<exists>d3 r3. wireToUser example_store 1 ''A'' ''B'' 50 = (d3, Inr r3)"
    by (simp add: run_defs)
  then obtain d3 r3 where w: "wireToUser example_store 1 ''A'' ''B'' 50 = (d3, Inr r3)" by blast
  have "\<exists>d4 r4. wireToEntity example_store 1 ''A'' ''bank'' 50 = (d4, Inr r4)"
    by (simp add: run_defs)
  then obtain d4 r4 where e: "wireToEntity example_store 1 ''A'' ''bank'' 50 = (d4, Inr r4)" by blast
  from loan_balance_within_credit_limit [OF u l, where ?now1.0 = 1 and ?now2.0 = 2
      and uidB = "''A''" and tickerB = "''XYZ''" and add = 2 and useCredit = True and dB = d1 and rB = r1
      and uidS = "''B''" and tickerS = "''XYZ''" and remove = 3 and dS = d2 and rS = r2
      and uidW = "''A''" and destUid = "''B''" and amountW = 50 and dW = d3 and rW = r3
      and uidE = "''A''" and destIdentifier = "''bank''" and amountE = 50 and dE = d4 and rE = r4]
    u b c s w e
  show ?thesis by simp
qed

section \<open>Wires between users\<close>

text \<open>
  Between two different users a successful wire conserves the balances: the source loses
  the amount and the destination gains it.
\<close>

lemma wireToUser_conserves_between_distinct_users:
  assumes "wireToUser d now fromUid destUid amount = (d', Inr r)" and "fromUid \<noteq> destUid"
  shows "\<exists>f t f' t'. getUser d fromUid = Some f \<and> getUser d destUid = Some t \<and>
           getUser d' fromUid = Some f' \<and> getUser d' destUid = Some t' \<and>
           User.balance f' = User.balance f - amount \<and> User.balance t' = User.balance t + amount \<and>
           (User.balance f' - User.balance f) + (User.balance t' - User.balance t) = 0"
  using assms(1)
  by (rule wireToUser_cases) (use assms(2) in \<open>auto simp: getUser_def find_users_update set_User_def simp del: map_map\<close>)

text \<open>
  Claim C4.  A successful \<open>wireToUser\<close> whose destination exists should leave the sum
  of the two balance changes at 0.  With the source as its own destination the code reads
  the balance 100 twice, writes 100 - 50 and then 100 + 50: the wire of 50 succeeds and
  the user's balance is 150, so both changes are + 50 and their sum is 100.
\<close>

theorem wireToUser_to_self_not_conserving:
  "getUser example_store ''A'' =
     Some \<lparr>User.uid = ''A'', User.balance = 100, User.credit_limit = 500, User.loan_balance = 0\<rparr> \<and>
   snd (wireToUser example_store 1 ''A'' ''A'' 50) =
     Inr \<lparr> WireTransaction.type = ''wire'', WireTransaction.uid = ''A'',
           WireTransaction.balance_change = - 50, WireTransaction.destination = ''A'',
           WireTransaction.is_destination_user = True, WireTransaction.timestamp = 1 \<rparr> \<and>
   getUser (fst (wireToUser example_store 1 ''A'' ''A'' 50)) ''A'' =
     Some \<lparr>User.uid = ''A'', User.balance = 150, User.credit_limit = 500, User.loan_balance = 0\<rparr>"
  by (simp add: run_defs)

section \<open>Trades that validation refuses\<close>

text \<open>
  Claim C5.  When the user and the stock exist and there is no holding, or the quantity
  to sell exceeds the latest holding's quantity, \<open>sellStock\<close> throws
  \<open>InsufficientStockQuantityError\<close> with the uid, the owned quantity (0 without a
  holding) and the requested quantity, and the store is the one it started from: no
  balance, loan balance or holding has changed and no record was appended.
\<close>

theorem sellStock_insufficient_quantity:
  assumes "getUserPortfolio d uid' = Some user" and "getStock d ticker' = Some stock"
    and "getMostRecentStockHolding d uid' ticker' = None \<or>
         (\<exists>h. getMostRecentStockHolding d uid' ticker' = Some h \<and> remove > UserStock.quantity h)"
  shows "sellStock d now1 now2 uid' ticker' remove =
           (d, Inl (InsufficientStockQuantityError uid'
                      (case getMostRecentStockHolding d uid' ticker' of
                         None \<Rightarrow> 0 | Some h \<Rightarrow> UserStock.quantity h) remove))"
  using assms by (auto simp: sellStock_def)

theorem sellStock_insufficient_quantity_witness:
  "sellStock example_store 1 2 ''A'' ''XYZ'' 1 =
     (example_store, Inl (InsufficientStockQuantityError ''A'' 0 1)) \<and>
   sellStock example_store 1 2 ''B'' ''XYZ'' 10 =
     (example_store, Inl (InsufficientStockQuantityError ''B'' 5 10))"
proof -
  have a: "getUserPortfolio example_store ''A'' =
     Some \<lparr>User.uid = ''A'', User.balance = 100, User.credit_limit = 500, User.loan_balance = 0\<rparr>"
    by (simp add: getUserPortfolio_def example_store_def)
  have b: "getUserPortfolio example_store ''B'' =
     Some \<lparr>User.uid = ''B'', User.balance = 1000, User.credit_limit = 0, User.loan_balance = 0\<rparr>"
    by (simp add: getUserPortfolio_def example_store_def)
  have s: "getStock example_store ''XYZ'' = Some \<lparr>Stock.ticker = ''XYZ'', Stock.price = 100\<rparr>"
    by (simp add: getStock_def example_store_def)
  have ha: "getMostRecentStockHolding example_store ''A'' ''XYZ'' = None"
    by (simp add: getMostRecentStockHolding_def example_store_def)
  have hb: "getMostRecentStockHolding example_store ''B'' ''XYZ'' =
      Some \<lparr>UserStock.uid = ''B'', UserStock.ticker = ''XYZ'', UserStock.quantity = 5,
             UserStock.timestamp = 0\<rparr>"
    by (simp add: getMostRecentStockHolding_def example_store_def)
  from sellStock_insufficient_quantity [OF a s, of 1 1 2] ha
  have "sellStock example_store 1 2 ''A'' ''XYZ'' 1 =
     (example_store, Inl (InsufficientStockQuantityError ''A'' 0 1))" by simp
  moreover from sellStock_insufficient_quantity [OF b s, of 10 1 2] hb
  have "sellStock example_store 1 2 ''B'' ''XYZ'' 10 =
     (example_store, Inl (InsufficientStockQuantityError ''B'' 5 10))" by simp
  ultimately show ?thesis by simp
qed



section \<open>The quantity of the new holding snapshot\<close>

text \<open>
  Claim C7, as stated, fails: \<open>buyStock\<close> does not look at the sign of the quantity.
  User A, who holds no XYZ, buys - 5 shares at 100: the cost - 500 is below the balance,
  the buy succeeds and the new snapshot has quantity - 5.
\<close>

theorem buyStock_negative_quantity_counterexample:
  "getMostRecentStockHolding example_store ''A'' ''XYZ'' = None \<and>
   snd (buyStock example_store 1 2 ''A'' ''XYZ'' (- 5) False) =
     Inr \<lparr> StockTransaction.type = ''buy'', StockTransaction.uid = ''A'',
           StockTransaction.ticker = ''XYZ'', StockTransaction.balance_change = 500,
           StockTransaction.credit_change = 0, StockTransaction.quantity = - 5,
           StockTransaction.price = 100, StockTransaction.total_price = - 500,
           StockTransaction.timestamp = 2 \<rparr> \<and>
   users_stocks (fst (buyStock example_store 1 2 ''A'' ''XYZ'' (- 5) False)) =
     users_stocks example_store @
     [\<lparr> UserStock.uid = ''A'', UserStock.ticker = ''XYZ'', UserStock.quantity = - 5,
        UserStock.timestamp = 1 \<rparr>] \<and>
   \<not> (0::int) \<le> - 5"
  by (simp add: run_defs)

text \<open>
  Claim C7, amended.  After a successful trade the store has exactly one more holding
  row, for this user and ticker, and its quantity is the quantity of the latest holding
  before the trade (0 if there was none) plus the quantity bought, or minus the quantity
  sold.  After a sell that quantity is never negative; after a buy it is not negative
  when neither the earlier quantity nor the quantity bought is.
\<close>

theorem trade_holding_quantity:
  "(buyStock d now1 now2 uid' ticker' add useCredit = (dB, Inr rB) \<longrightarrow>
      (\<exists>h. users_stocks dB = users_stocks d @ [h] \<and>
           UserStock.uid h = uid' \<and> UserStock.ticker h = ticker' \<and>
           UserStock.quantity h =
             (case getMostRecentStockHolding d uid' ticker' of
                None \<Rightarrow> 0 | Some h0 \<Rightarrow> UserStock.quantity h0) + add \<and>
           (0 \<le> (case getMostRecentStockHolding d uid' ticker' of
                    None \<Rightarrow> 0 | Some h0 \<Rightarrow> UserStock.quantity h0) \<and> 0 \<le> add \<longrightarrow>
              0 \<le> UserStock.quantity h))) \<and>
   (sellStock d now1 now2 uid' ticker' remove = (dS, Inr rS) \<longrightarrow>
      (\<exists>h. users_stocks dS = users_stocks d @ [h] \<and>
           UserStock.uid h = uid' \<and> UserStock.ticker h = ticker' \<and>
           UserStock.quantity h =
             (case getMostRecentStockHolding d uid' ticker' of
                None \<Rightarrow> 0 | Some h0 \<Rightarrow> UserStock.quantity h0) - remove \<and>
           0 \<le> UserStock.quantity h))"
proof (intro conjI impI)
  assume "buyStock d now1 now2 uid' ticker' add useCredit = (dB, Inr rB)"
  then obtain user stock c where
    "buyStock_persist d now1 now2 uid' ticker' add user stock (Stock.price stock * add) c = (dB, Inr rB)"
    by (rule buyStock_cases)
  from buyStock_persist_success [OF this]
  show "\<exists>h. users_stocks dB = users_stocks d @ [h] \<and>
           UserStock.uid h = uid' \<and> UserStock.ticker h = ticker' \<and>
           UserStock.quantity h =
             (case getMostRecentStockHolding d uid' ticker' of
                None \<Rightarrow> 0 | Some h0 \<Rightarrow> UserStock.quantity h0) + add \<and>
           (0 \<le> (case getMostRecentStockHolding d uid' ticker' of
                    None \<Rightarrow> 0 | Some h0 \<Rightarrow> UserStock.quantity h0) \<and> 0 \<le> add \<longrightarrow>
              0 \<le> UserStock.quantity h)"
    by (auto split: option.splits)
next
  assume "sellStock d now1 now2 uid' ticker' remove = (dS, Inr rS)"
  then show "\<exists>h. users_stocks dS = users_stocks d @ [h] \<and>
           UserStock.uid h = uid' \<and> UserStock.ticker h = ticker' \<and>
           UserStock.quantity h =
             (case getMostRecentStockHolding d uid' ticker' of
                None \<Rightarrow> 0 | Some h0 \<Rightarrow> UserStock.quantity h0) - remove \<and>
           0 \<le> UserStock.quantity h"
    by (rule sellStock_cases) auto
qed

theorem trade_holding_quantity_witness:
  "getMostRecentStockHolding example_store ''B'' ''XYZ'' =
     Some \<lparr>UserStock.uid = ''B'', UserStock.ticker = ''XYZ'', UserStock.quantity = 5,
            UserStock.timestamp = 0\<rparr> \<and>
   (\<exists>dB rB h. buyStock example_store 1 2 ''B'' ''XYZ'' 4 False = (dB, Inr rB) \<and>
      users_stocks dB = users_stocks example_store @ [h] \<and>
      UserStock.uid h = ''B'' \<and> UserStock.ticker h = ''XYZ'' \<and>
      (0::int) \<le> 5 \<and> (0::int) \<le> 4 \<and> UserStock.quantity h = 9 \<and> 0 \<le> UserStock.quantity h) \<and>
   (\<exists>dS rS h. sellStock example_store 1 2 ''B'' ''XYZ'' 3 = (dS, Inr rS) \<and>
      users_stocks dS = users_stocks example_store @ [h] \<and>
      UserStock.uid h = ''B'' \<and> UserStock.ticker h = ''XYZ'' \<and>
      UserStock.quantity h = 2 \<and> 0 \<le> UserStock.quantity h)"
proof -
  have h: "getMostRecentStockHolding example_store ''B'' ''XYZ'' =
     Some \<lparr>UserStock.uid = ''B'', UserStock.ticker = ''XYZ'', UserStock.quantity = 5,
            UserStock.timestamp = 0\<rparr>"
    by (simp add: getMostRecentStockHolding_def example_store_def)
  have "\<exists>dB rB. buyStock example_store 1 2 ''B'' ''XYZ'' 4 False = (dB, Inr rB)"
    by (simp add: run_defs)
  then obtain dB rB where b: "buyStock example_store 1 2 ''B'' ''XYZ'' 4 False = (dB, Inr rB)"
    by blast
  have "\<exists>dS rS. sellStock example_store 1 2 ''B'' ''XYZ'' 3 = (dS, Inr rS)"
    by (simp add: run_defs)
  then obtain dS rS where s: "sellStock example_store 1 2 ''B'' ''XYZ'' 3 = (dS, Inr rS)"
    by blast
  from trade_holding_quantity [of example_store 1 2 "''B''" "''XYZ''" 4 False dB rB 3 dS rS] b s h
  show ?thesis by simp
qed

section \<open>Updates without fields\<close>

text \<open>
  Claim C8.  An update with no fields should fail with the empty-update error, which
  \<open>updateStock\<close> throws as \<open>Error ''No fields to update''\<close> before it builds a
  statement.  \<open>updateUser\<close> has no such check: it sends the statement without
  assignments to the store, and the failure is the store's.
\<close>

theorem updateUser_without_fields_reaches_the_store:
  "updateUser example_store ''A''
     \<lparr> Partial_User.uid = None, Partial_User.balance = None,
       Partial_User.credit_limit = None, Partial_User.loan_balance = None \<rparr> =
     Inl (DatabaseError ''syntax error'') \<and>
   updateStock example_store ''XYZ'' \<lparr> Partial_Stock.ticker = None, Partial_Stock.price = None \<rparr> =
     Inl (Error ''No fields to update'')"
  by (simp add: updateUser_def updateStock_def query_update_users_def Object_keys_User_def
        Object_keys_Stock_def key_of_def)

section \<open>Wires to an external entity\<close>

lemma distinct_uid_find_unique:
  "distinct (map User.uid us) \<Longrightarrow> find (\<lambda>u. User.uid u = k) us = Some u \<Longrightarrow>
   v \<in> set us \<Longrightarrow> User.uid v = k \<Longrightarrow> v = u"
  by (induction us) (auto split: if_splits dest: find_Some_iff [THEN iffD1])

lemma debit_row:
  "set_User \<lparr> Partial_User.uid = None, Partial_User.balance = Some (User.balance v - amount),
              Partial_User.credit_limit = None, Partial_User.loan_balance = None \<rparr> v =
   v\<lparr>User.balance := User.balance v - amount\<rparr>"
  by (simp add: set_User_def)

lemma sum_list_balance_debit:
  "distinct (map User.uid us) \<Longrightarrow> find (\<lambda>u. User.uid u = k) us = Some u \<Longrightarrow>
   sum_list (map User.balance
     (map (\<lambda>v. if User.uid v = k then v\<lparr>User.balance := User.balance v - amount\<rparr> else v) us)) =
   sum_list (map User.balance us) - amount"
proof (induction us)
  case Nil
  then show ?case by simp
next
  case (Cons a us)
  show ?case
  proof (cases "User.uid a = k")
    case True
    with Cons.prems(1) have "\<forall>v\<in>set us. User.uid v \<noteq> k"
      by (auto simp: image_iff)
    then have "map (\<lambda>v. if User.uid v = k then v\<lparr>User.balance := User.balance v - amount\<rparr> else v) us = us"
      by (simp add: map_idI)
    with True show ?thesis by simp
  next
    case False
    with Cons show ?thesis by simp
  qed
qed

lemma filter_users_update_others:
  "Partial_User.uid p = None \<Longrightarrow>
   filter (\<lambda>v. User.uid v \<noteq> k) (map (\<lambda>v. if User.uid v = k then set_User p v else v) us) =
   filter (\<lambda>v. User.uid v \<noteq> k) us"
  by (induction us) (auto simp: set_User_def)

text \<open>
  Claim C9.  A successful \<open>wireToEntity\<close> lowers the source user's balance by exactly
  the amount and leaves every other user as read by \<open>getUser\<close>, every user row of
  another uid, every holding and every stock as they were; one wire record is appended,
  with \<open>balance_change = - amount\<close> and \<open>is_destination_user = False\<close>.  When the
  uids of the user rows are distinct, as the key of the users table makes them, the rows
  after the wire are the rows before with the source's balance lowered, and the sum of
  all balances goes down by the amount.
\<close>

theorem wireToEntity_debits_only_source:
  assumes "wireToEntity d now fromUid destIdentifier amount = (d', Inr r)"
  shows "(\<exists>u. getUser d fromUid = Some u \<and>
              getUser d' fromUid = Some (u\<lparr>User.balance := User.balance u - amount\<rparr>)) \<and>
         (\<forall>k. k \<noteq> fromUid \<longrightarrow> getUser d' k = getUser d k) \<and>
         length (users d') = length (users d) \<and>
         filter (\<lambda>v. User.uid v \<noteq> fromUid) (users d') = filter (\<lambda>v. User.uid v \<noteq> fromUid) (users d) \<and>
         users_stocks d' = users_stocks d \<and> stocks d' = stocks d \<and>
         transactions d' = transactions d @ [Wire_record r] \<and>
         WireTransaction.balance_change r = - amount \<and>
         \<not> WireTransaction.is_destination_user r \<and>
         (distinct (map User.uid (users d)) \<longrightarrow>
            users d' =
              map (\<lambda>v. if User.uid v = fromUid then v\<lparr>User.balance := User.balance v - amount\<rparr> else v)
                (users d) \<and>
            sum_list (map User.balance (users d')) = sum_list (map User.balance (users d)) - amount)"
proof -
  from assms(1) obtain fromUser where
    f: "getUser d fromUid = Some fromUser" and
    r: "r = \<lparr> WireTransaction.type = ''wire'', WireTransaction.uid = fromUid,
           WireTransaction.balance_change = - amount, WireTransaction.destination = destIdentifier,
           WireTransaction.is_destination_user = False, WireTransaction.timestamp = now \<rparr>" and
    us: "users d' =
       map (\<lambda>u. if User.uid u = fromUid then
               set_User \<lparr> Partial_User.uid = None,
                          Partial_User.balance = Some (User.balance fromUser - amount),
                          Partial_User.credit_limit = None, Partial_User.loan_balance = None \<rparr> u else u)
           (users d)" and
    rest: "stocks d' = stocks d" "users_stocks d' = users_stocks d"
      "transactions d' = transactions d @ [Wire_record r]"
    by (rule wireToEntity_cases)
  from f have ff: "find (\<lambda>u. User.uid u = fromUid) (users d) = Some fromUser"
    by (simp add: getUser_def)
  have src: "getUser d' fromUid = Some (fromUser\<lparr>User.balance := User.balance fromUser - amount\<rparr>)"
    using us ff by (simp add: getUser_def find_users_update debit_row)
  have others: "\<forall>k. k \<noteq> fromUid \<longrightarrow> getUser d' k = getUser d k"
    using us by (simp add: getUser_def find_users_update)
  have len: "length (users d') = length (users d)"
    using us by simp
  have frame: "filter (\<lambda>v. User.uid v \<noteq> fromUid) (users d') = filter (\<lambda>v. User.uid v \<noteq> fromUid) (users d)"
    unfolding us by (rule filter_users_update_others) simp
  have keyed: "users d' =
      map (\<lambda>v. if User.uid v = fromUid then v\<lparr>User.balance := User.balance v - amount\<rparr> else v) (users d) \<and>
      sum_list (map User.balance (users d')) = sum_list (map User.balance (users d)) - amount"
    if dist: "distinct (map User.uid (users d))"
  proof -
    have rows: "users d' =
      map (\<lambda>v. if User.uid v = fromUid then v\<lparr>User.balance := User.balance v - amount\<rparr> else v) (users d)"
      unfolding us
    proof (rule map_cong [OF refl])
      fix v assume "v \<in> set (users d)"
      with distinct_uid_find_unique [OF dist ff] have "User.uid v = fromUid \<Longrightarrow> v = fromUser"
        by blast
      then show "(if User.uid v = fromUid then
               set_User \<lparr> Partial_User.uid = None,
                          Partial_User.balance = Some (User.balance fromUser - amount),
                          Partial_User.credit_limit = None, Partial_User.loan_balance = None \<rparr> v else v) =
          (if User.uid v = fromUid then v\<lparr>User.balance := User.balance v - amount\<rparr> else v)"
        by (auto simp: debit_row)
    qed
    have "sum_list (map User.balance (users d')) = sum_list (map User.balance (users d)) - amount"
      unfolding rows by (rule sum_list_balance_debit [OF dist ff])
    with rows show ?thesis by (rule conjI)
  qed
  from f src have "\<exists>u. getUser d fromUid = Some u \<and>
              getUser d' fromUid = Some (u\<lparr>User.balance := User.balance u - amount\<rparr>)"
    by simp
  moreover from r have "WireTransaction.balance_change r = - amount"
    "\<not> WireTransaction.is_destination_user r" by simp_all
  ultimately show ?thesis using others len frame rest keyed by blast
qed

theorem wireToEntity_debits_only_source_witness:
  "distinct (map User.uid (users example_store)) \<and>
   (\<exists>d' r. wireToEntity example_store 1 ''A'' ''bank'' 50 = (d', Inr r) \<and>
      getUser d' ''A'' =
        Some \<lparr>User.uid = ''A'', User.balance = 50, User.credit_limit = 500, User.loan_balance = 0\<rparr> \<and>
      ''B'' \<noteq> ''A'' \<and> getUser d' ''B'' = getUser example_store ''B'' \<and>
      users_stocks d' = users_stocks example_store \<and> stocks d' = stocks example_store \<and>
      sum_list (map User.balance (users example_store)) = 1100 \<and>
      sum_list (map User.balance (users d')) = 1050 \<and>
      transactions d' = transactions example_store @ [Wire_record r] \<and>
      WireTransaction.balance_change r = - 50 \<and> \<not> WireTransaction.is_destination_user r)"
proof -
  have dist: "distinct (map User.uid (users example_store))"
    by (simp add: example_store_def)
  have u: "getUser example_store ''A'' =
     Some \<lparr>User.uid = ''A'', User.balance = 100, User.credit_limit = 500, User.loan_balance = 0\<rparr>"
    by (simp add: getUser_def example_store_def)
  have t: "sum_list (map User.balance (users example_store)) = 1100"
    by (simp add: example_store_def)
  have "\<exists>d' r. wireToEntity example_store 1 ''A'' ''bank'' 50 = (d', Inr r)"
    by (simp add: run_defs)
  then obtain d' r where w: "wireToEntity example_store 1 ''A'' ''bank'' 50 = (d', Inr r)"
    by blast
  note th = wireToEntity_debits_only_source [OF w]
  from th dist have s: "sum_list (map User.balance (users d')) = sum_list (map User.balance (users example_store)) - 50"
    by blast
  from th have o: "getUser d' ''B'' = getUser example_store ''B''" by simp
  from th u have a: "getUser d' ''A'' =
        Some \<lparr>User.uid = ''A'', User.balance = 50, User.credit_limit = 500, User.loan_balance = 0\<rparr>"
    by simp
  from th have "users_stocks d' = users_stocks example_store" "stocks d' = stocks example_store"
      "transactions d' = transactions example_store @ [Wire_record r]"
      "WireTransaction.balance_change r = - 50" "\<not> WireTransaction.is_destination_user r"
    by blast+
  with dist w a o s t show ?thesis by simp
qed

section \<open>A wire to oneself\<close>



end
